theory Spec2Isabelle
  imports Main
begin

section \<open>Packaging metadata (pyproject.toml)\<close>

text \<open>
  The packaging metadata is a TOML document: a sequence of tables, each with a header
  path and a list of key/value entries. Keys may be dotted (\<open>envs.default.dependencies\<close>),
  so a key is a path as well. Comments carry no data and are dropped.
\<close>

datatype toml_value =
    TStr string
  | TInt int
  | TBool bool
  | TArr "toml_value list"
  | TInline "(string \<times> toml_value) list"

type_synonym toml_table = "string list \<times> (string list \<times> toml_value) list"

definition pyproject :: "toml_table list" where
  "pyproject =
  [ ([''build-system''],
      [ ([''requires''], TArr [TStr ''hatchling'']),
        ([''build-backend''], TStr ''hatchling.build'') ]),
    ([''project''],
      [ ([''name''], TStr ''supercapacitors''),
        ([''authors''],
           TArr [TInline [(''name'', TStr ''Ferran Brosa Planella''),
                        (''email'', TStr ''Ferran.Brosa-Planella@warwick.ac.uk'')]]),
        ([''description''], TStr ''A supercapacitors modelling project using PyBaMM''),
        ([''readme''], TStr ''README.md''),
        ([''requires-python''], TStr ''>=3.8''),
        ([''classifiers''],
           TArr [TStr ''Development Status :: 1 - Planning'',
                TStr ''Intended Audience :: Science/Research'',
                TStr ''Intended Audience :: Developers'',
                TStr ''License :: OSI Approved :: BSD License'',
                TStr ''Operating System :: OS Independent'',
                TStr ''Programming Language :: Python'',
                TStr ''Programming Language :: Python :: 3'',
                TStr ''Programming Language :: Python :: 3 :: Only'',
                TStr ''Programming Language :: Python :: 3.8'',
                TStr ''Programming Language :: Python :: 3.9'',
                TStr ''Programming Language :: Python :: 3.10'',
                TStr ''Programming Language :: Python :: 3.11'',
                TStr ''Topic :: Scientific/Engineering'']),
        ([''dynamic''], TArr [TStr ''version'']),
        ([''dependencies''], TArr [TStr ''pybamm'']) ]),
    ([''project'', ''optional-dependencies''],
      [ ([''dev''],
           TArr [TStr ''pytest >=6'', TStr ''pytest-cov >=3'', TStr ''nox[uv]'',
                TStr ''pre-commit'']),
        ([''docs''],
           TArr [TStr ''sphinx'', TStr ''pydata_sphinx_theme'', TStr ''sphinx_design'',
                TStr ''sphinx-copybutton'', TStr ''myst-parser'', TStr ''sphinx-inline-tabs'',
                TStr ''sphinxcontrib-bibtex'', TStr ''sphinx-autobuild'',
                TStr ''sphinx-last-updated-by-git'', TStr ''nbsphinx'', TStr ''ipython'',
                TStr ''sphinx-gallery'']) ]),
    ([''project'', ''urls''],
      [ ([''Homepage''], TStr ''https://github.com/mmsg-warwick/supercapacitors''),
        ([''Bug Tracker''], TStr ''https://github.com/mmsg-warwick/supercapacitors/issues''),
        ([''Discussions''],
           TStr ''https://github.com/mmsg-warwick/supercapacitors/discussions''),
        ([''Changelog''], TStr ''https://github.com/mmsg-warwick/supercapacitors/releases'') ]),
    ([''project'', ''entry-points'', ''parameter_sets''],
      [ ([''Chen2020''],
           TStr ''supercapacitors.parameters.input.Chen2020:get_parameter_values''),
        ([''Verbrugge2005''],
           TStr ''supercapacitors.parameters.input.Verbrugge2005:get_parameter_values''),
        ([''Iamrod2024''],
           TStr ''supercapacitors.parameters.input.Iamrod2024:get_parameter_values'') ]),
    ([''project'', ''entry-points'', ''models''],
      [ ([''SPM''], TStr ''supercapacitors.models.input.SPM:SPM''),
        ([''BasicReservoir''],
           TStr ''supercapacitors.models.input.BasicReservoir:BasicReservoir''),
        ([''VerbruggeLiu''],
           TStr ''supercapacitors.models.input.VerbruggeLiu:VerbruggeLiu'') ]),
    ([''tool'', ''hatch''],
      [ ([''envs'', ''default'', ''dependencies''], TArr [TStr ''pybamm'']) ]),
    ([''tool'', ''hatch'', ''version''],
      [ ([''path''], TStr ''src/supercapacitors/__init__.py'') ]),
    ([''tool'', ''hatch'', ''build'', ''targets'', ''wheel''],
      [ ([''packages''], TArr [TStr ''src/supercapacitors'']) ]),
    ([''tool'', ''coverage''],
      [ ([''run'', ''source''], TArr [TStr ''supercapacitors'']),
        ([''port'', ''exclude_lines''], TArr [TStr ''pragma: no cover'']) ]),
    ([''tool'', ''ruff''],
      [ ([''select''],
           TArr [TStr ''E'', TStr ''F'', TStr ''W'', TStr ''B'', TStr ''I'', TStr ''C4'', TStr ''EM'',
                TStr ''ICN'', TStr ''ISC'', TStr ''G'', TStr ''PGH'', TStr ''PIE'', TStr ''PL'',
                TStr ''PT'', TStr ''PTH'', TStr ''RUF'', TStr ''SIM'', TStr ''T20'', TStr ''UP'',
                TStr ''YTT'', TStr ''EXE'', TStr ''NPY'', TStr ''PD'']),
        ([''src''], TArr [TStr ''src'']),
        ([''unfixable''], TArr [TStr ''T20'', TStr ''F841'']),
        ([''ignore''], TArr [TStr ''E741'', TStr ''E501'', TStr ''PLR2004'', TStr ''PLR0915'']),
        ([''line-length''], TInt 100),
        ([''exclude''], TArr []),
        ([''flake8-unused-arguments'', ''ignore-variadic-names''], TBool True) ]) ]"

subsection \<open>Reading the document\<close>

text \<open>The entries of the table with a given header; none when the table is absent.\<close>

fun table :: "string list \<Rightarrow> toml_table list \<Rightarrow> (string list \<times> toml_value) list" where
  "table h [] = []"
| "table h ((h', kvs) # ts) = (if h = h' then kvs else table h ts)"

text \<open>The strings of an array value; any other value holds none.\<close>

fun str_items :: "toml_value \<Rightarrow> string list" where
  "str_items (TArr vs) = concat (map (\<lambda>v. case v of TStr s \<Rightarrow> [s] | _ \<Rightarrow> []) vs)"
| "str_items _ = []"

text \<open>\<open>project.dependencies\<close>: the requirements installed together with the package.\<close>

definition dependencies :: "string list" where
  "dependencies =
     (case map_of (table [''project''] pyproject) [''dependencies''] of
        Some v \<Rightarrow> str_items v
      | None \<Rightarrow> [])"

text \<open>
  A table \<open>[project.entry-points."g"]\<close> declares the entry-point group \<open>g\<close>; each of its
  entries maps a name to an object reference.
\<close>

fun entry_point_group :: "toml_table \<Rightarrow> string option" where
  "entry_point_group (h, kvs) =
     (case h of
        [a, b, g] \<Rightarrow> if a = ''project'' \<and> b = ''entry-points'' then Some g else None
      | _ \<Rightarrow> None)"

definition entry_point_groups :: "string list" where
  "entry_point_groups = List.map_filter entry_point_group pyproject"

fun entry_of :: "string list \<times> toml_value \<Rightarrow> (string \<times> string) option" where
  "entry_of ([k], TStr s) = Some (k, s)"
| "entry_of _ = None"

definition entry_points :: "string \<Rightarrow> (string \<times> string) list" where
  "entry_points g =
     List.map_filter entry_of (table [''project'', ''entry-points'', g] pyproject)"

text \<open>
  An object reference has the form \<open>module:attr\<close>: the module to import and the
  attribute of it to fetch.
\<close>

definition object_ref :: "string \<Rightarrow> string \<times> string" where
  "object_ref s =
     (takeWhile (\<lambda>c. c \<noteq> CHR '':'') s, drop 1 (dropWhile (\<lambda>c. c \<noteq> CHR '':'') s))"

section \<open>Registered names\<close>

lemma entry_points_models:
  "entry_points ''models'' =
     [(''SPM'', ''supercapacitors.models.input.SPM:SPM''),
      (''BasicReservoir'', ''supercapacitors.models.input.BasicReservoir:BasicReservoir''),
      (''VerbruggeLiu'', ''supercapacitors.models.input.VerbruggeLiu:VerbruggeLiu'')]"
  by (simp add: entry_points_def pyproject_def)

lemma entry_points_parameter_sets:
  "entry_points ''parameter_sets'' =
     [(''Chen2020'', ''supercapacitors.parameters.input.Chen2020:get_parameter_values''),
      (''Verbrugge2005'',
         ''supercapacitors.parameters.input.Verbrugge2005:get_parameter_values''),
      (''Iamrod2024'', ''supercapacitors.parameters.input.Iamrod2024:get_parameter_values'')]"
  by (simp add: entry_points_def pyproject_def)

text \<open>
  C1. The entry-point group \<open>models\<close> registers exactly three names: SPM, BasicReservoir
  and VerbruggeLiu, each once, and no other.
\<close>

theorem registered_models:
  "map fst (entry_points ''models'') = [''SPM'', ''BasicReservoir'', ''VerbruggeLiu'']
   \<and> distinct (map fst (entry_points ''models''))
   \<and> length (entry_points ''models'') = 3"
  by (simp add: entry_points_models)

text \<open>
  C2. The entry-point group \<open>parameter_sets\<close> registers exactly three names: Chen2020,
  Verbrugge2005 and Iamrod2024, each once, and no other.
\<close>

theorem registered_parameter_sets:
  "map fst (entry_points ''parameter_sets'') = [''Chen2020'', ''Verbrugge2005'', ''Iamrod2024'']
   \<and> distinct (map fst (entry_points ''parameter_sets''))
   \<and> length (entry_points ''parameter_sets'') = 3"
  by (simp add: entry_points_parameter_sets)

text \<open>
  C8. The object references follow one convention: the model registered as \<open>N\<close> is the
  attribute \<open>N\<close> of the module \<open>supercapacitors.models.input.N\<close>, and the parameter set
  registered as \<open>P\<close> is the attribute \<open>get_parameter_values\<close> of the module
  \<open>supercapacitors.parameters.input.P\<close>.
\<close>

theorem entry_point_naming_convention:
  "(\<forall>(n, r) \<in> set (entry_points ''models'').
      object_ref r = (''supercapacitors.models.input.'' @ n, n))
   \<and> (\<forall>(p, r) \<in> set (entry_points ''parameter_sets'').
      object_ref r = (''supercapacitors.parameters.input.'' @ p, ''get_parameter_values''))"
  by (simp add: entry_points_models entry_points_parameter_sets object_ref_def)

theorem entry_point_naming_convention_witness:
  "(''BasicReservoir'', ''supercapacitors.models.input.BasicReservoir:BasicReservoir'')
     \<in> set (entry_points ''models'')
   \<and> object_ref ''supercapacitors.models.input.BasicReservoir:BasicReservoir''
       = (''supercapacitors.models.input.BasicReservoir'', ''BasicReservoir'')
   \<and> (''Iamrod2024'', ''supercapacitors.parameters.input.Iamrod2024:get_parameter_values'')
     \<in> set (entry_points ''parameter_sets'')
   \<and> object_ref ''supercapacitors.parameters.input.Iamrod2024:get_parameter_values''
       = (''supercapacitors.parameters.input.Iamrod2024'', ''get_parameter_values'')"
proof -
  have m: "(''BasicReservoir'', ''supercapacitors.models.input.BasicReservoir:BasicReservoir'')
             \<in> set (entry_points ''models'')"
    by (simp add: entry_points_models)
  have p: "(''Iamrod2024'', ''supercapacitors.parameters.input.Iamrod2024:get_parameter_values'')
             \<in> set (entry_points ''parameter_sets'')"
    by (simp add: entry_points_parameter_sets)
  from entry_point_naming_convention m
  have "object_ref ''supercapacitors.models.input.BasicReservoir:BasicReservoir''
          = (''supercapacitors.models.input.'' @ ''BasicReservoir'', ''BasicReservoir'')"
    by blast
  moreover from entry_point_naming_convention p
  have "object_ref ''supercapacitors.parameters.input.Iamrod2024:get_parameter_values''
          = (''supercapacitors.parameters.input.'' @ ''Iamrod2024'', ''get_parameter_values'')"
    by blast
  ultimately show ?thesis using m p by simp
qed

section \<open>Declared dependencies and entry-point groups\<close>

lemma declared_dependencies: "dependencies = [''pybamm'']"
  by (simp add: dependencies_def pyproject_def)

lemma declared_entry_point_groups: "entry_point_groups = [''parameter_sets'', ''models'']"
  by (simp add: entry_point_groups_def pyproject_def List.map_filter_def)

end
